theory Spec2Isabelle
  imports Main "HOL-Library.Word"
begin

section \<open>The C++ wrapper around the napa runtime C API (napa-runtime.h)\<close>

text \<open>
  The header wraps the engine's C entry points in a \<open>Container\<close> class, a \<open>Response\<close>
  value type and a completion bridge for the asynchronous calls. The embedding follows
  the header function by function. What the header includes from \<open>napa-runtime-c.h\<close>
  (the response codes, the string view and its two macros, the engine entry points) is
  not part of the header itself; it is modelled from the specification and marked so.
\<close>

subsection \<open>Types of the C API\<close>

type_synonym addr = nat

text \<open>
  Modelled from the spec: the enumeration \<open>NapaResponseCode\<close> is declared in
  \<open>napa-runtime-c.h\<close>. The header names only \<open>NAPA_RESPONSE_UNDEFINED\<close>; the other
  constants follow the response code taxonomy of the specification (Undefined, Success,
  Timeout, LoadFailure, ExecutionFailure, InitializationFailure).
\<close>

datatype NapaResponseCode =
    NAPA_RESPONSE_UNDEFINED
  | NAPA_RESPONSE_SUCCESS
  | NAPA_RESPONSE_TIMEOUT
  | NAPA_RESPONSE_LOAD_FAILURE
  | NAPA_RESPONSE_EXECUTION_FAILURE
  | NAPA_RESPONSE_INITIALIZATION_FAILURE

text \<open>
  Modelled from the spec: \<open>napa_string_ref\<close> is declared in \<open>napa-runtime-c.h\<close>. The
  specification describes it as a non-owning view, a pointer and a length, over text
  owned elsewhere. The record holds an address and a size and no characters.
\<close>

record napa_string_ref =
  ref_data :: addr
  ref_size :: nat

text \<open>
  A \<open>std::string\<close> that the wrapper receives by reference and whose storage it borrows:
  where its characters live (\<open>data()\<close>) and what they are (\<open>size()\<close> is their number).
\<close>

record std_string =
  data :: addr
  chars :: string

text \<open>
  Modelled from the spec: \<open>napa_container_response\<close> is declared in
  \<open>napa-runtime-c.h\<close>. The constructor of \<open>Response\<close> reads its members \<open>code\<close>,
  \<open>error\<close> and \<open>return_value\<close>, the last two being string views.
\<close>

record napa_container_response =
  response_code :: NapaResponseCode
  response_error :: napa_string_ref
  return_value :: napa_string_ref

text \<open>
  The bytes that can be read at each address. Storage that was released, or was never
  mapped, reads as \<open>None\<close>.
\<close>

type_synonym memory = "addr \<Rightarrow> char option"

text \<open>
  Behaviour that C++ leaves undefined is a fault of the model: reading a view that does
  not denote readable bytes, or completing with a pointer that is not a live context of
  the expected type. \<open>Address_in_use\<close> rules out an allocator that returns an
  address already in use.
\<close>

datatype fault = Invalid_view | Invalid_context | Address_in_use

text \<open>
  Modelled from the spec: the macro \<open>STD_STRING_TO_NAPA_STRING_REF\<close> is defined in
  \<open>napa-runtime-c.h\<close>. Each view borrows its source string's storage: the view is the
  string's \<open>data()\<close> pointer and its \<open>size()\<close>.
\<close>

definition STD_STRING_TO_NAPA_STRING_REF :: "std_string \<Rightarrow> napa_string_ref" where
  "STD_STRING_TO_NAPA_STRING_REF str = \<lparr>ref_data = data str, ref_size = length (chars str)\<rparr>"

text \<open>
  Modelled from the spec: the macro \<open>NAPA_STRING_REF_TO_STD_STRING\<close> is defined in
  \<open>napa-runtime-c.h\<close>. It builds an owned string from the \<open>ref_size\<close> bytes that start
  at \<open>ref_data\<close>; the result is a value of its own, not an address.
\<close>

definition view_range :: "napa_string_ref \<Rightarrow> addr list" where
  "view_range r = [ref_data r ..< ref_data r + ref_size r]"

definition NAPA_STRING_REF_TO_STD_STRING :: "memory \<Rightarrow> napa_string_ref \<Rightarrow> fault + string" where
  "NAPA_STRING_REF_TO_STD_STRING m r =
     (if list_all (\<lambda>a. m a \<noteq> None) (view_range r)
      then Inr (map (\<lambda>a. the (m a)) (view_range r))
      else Inl Invalid_view)"

subsection \<open>Response\<close>

text \<open>
  The members of \<open>Response\<close> are \<open>std::string\<close> objects that the struct owns; nothing in
  the wrapper takes their address, so they are HOL strings.
\<close>

record Response =
  code :: NapaResponseCode
  error :: string
  returnValue :: string

text \<open>\<open>Response()\<close>: only \<open>code\<close> has an initialiser; both strings are default-constructed.\<close>

definition Response_default :: Response where
  "Response_default = \<lparr>code = NAPA_RESPONSE_UNDEFINED, error = [], returnValue = []\<rparr>"

text \<open>
  \<open>Response(napa_container_response response)\<close>: the members are initialised in the
  order of their declaration, \<open>code\<close>, then \<open>error\<close>, then \<open>returnValue\<close>.
\<close>

definition Response_from :: "memory \<Rightarrow> napa_container_response \<Rightarrow> fault + Response" where
  "Response_from m response =
     (case NAPA_STRING_REF_TO_STD_STRING m (response_error response) of
        Inl f \<Rightarrow> Inl f
      | Inr e \<Rightarrow>
          (case NAPA_STRING_REF_TO_STD_STRING m (return_value response) of
             Inl f \<Rightarrow> Inl f
           | Inr v \<Rightarrow> Inr \<lparr>code = response_code response, error = e, returnValue = v\<rparr>))"

subsection \<open>Argument marshaling\<close>

text \<open>
  \<open>internal::ConvertToNapaRuntimeArgs\<close>: the range-based \<open>for\<close> loop over \<open>args\<close>, with
  \<open>res\<close> as the accumulator and \<open>emplace_back\<close> appending at the end. The second
  component counts the views constructed so far; \<open>reserve\<close> changes the capacity of
  \<open>res\<close> only.
\<close>

fun emplace_back_each :: "std_string list \<Rightarrow> napa_string_ref list \<times> nat \<Rightarrow> napa_string_ref list \<times> nat" where
  "emplace_back_each [] (res, n) = (res, n)"
| "emplace_back_each (arg # rest) (res, n) =
     emplace_back_each rest (res @ [STD_STRING_TO_NAPA_STRING_REF arg], Suc n)"

definition ConvertToNapaRuntimeArgs_counted :: "std_string list \<Rightarrow> napa_string_ref list \<times> nat" where
  "ConvertToNapaRuntimeArgs_counted args = emplace_back_each args ([], 0)"

definition ConvertToNapaRuntimeArgs :: "std_string list \<Rightarrow> napa_string_ref list" where
  "ConvertToNapaRuntimeArgs args = fst (ConvertToNapaRuntimeArgs_counted args)"

subsection \<open>The engine\<close>

type_synonym napa_container_handle = nat
type_synonym uint32_t = "32 word"

text \<open>
  \<open>RunCallback\<close> and \<open>LoadCallback\<close> are \<open>std::function\<close> objects returning \<open>void\<close>:
  user code whose effect is on the user's own state \<open>'u\<close>.
\<close>

type_synonym 'u RunCallback = "Response \<Rightarrow> 'u \<Rightarrow> 'u"
type_synonym 'u LoadCallback = "NapaResponseCode \<Rightarrow> 'u \<Rightarrow> 'u"

text \<open>\<open>internal::AsyncCompletionContext<CallbackType>\<close>: its one member is the callback.\<close>

record 'cb AsyncCompletionContext =
  callback :: 'cb

text \<open>
  The free store holds what the wrapper allocates: the element buffer of each
  \<open>std::vector<napa_string_ref>\<close> and each completion context, of either callback type.
\<close>

datatype 'u object =
    Vector_buffer "napa_string_ref list"
  | Load_context "'u LoadCallback AsyncCompletionContext"
  | Run_context "'u RunCallback AsyncCompletionContext"

type_synonym 'u heap = "addr \<Rightarrow> 'u object option"

text \<open>
  The two instantiations of \<open>internal::CompletionHandler\<close> whose addresses the wrapper
  hands to the engine: with \<open>LoadCallback\<close> and a response code, and with \<open>RunCallback\<close>
  and a \<open>napa_container_response\<close>.
\<close>

datatype completion_handler = CompletionHandler_LoadCallback | CompletionHandler_RunCallback

text \<open>
  Modelled from the spec: the engine entry points are declared in \<open>napa-runtime-c.h\<close>
  and implemented outside the header. The specification lists them as
  \<open>create/init/release(handle, settings)\<close>, \<open>set_global_value(handle, key, value)\<close>,
  \<open>load[_file][_sync](handle, text, [callback, context])\<close> and
  \<open>run[_sync](handle, function, argv, argc, [callback, context], timeout)\<close>. What they do
  is a parameter: any functions of these types, over any engine state \<open>'e\<close>. The run
  entry points may read the free store, where the argument views are; they change the
  engine's state only. \<open>engine_memory\<close> gives the bytes that can be read in that state.
\<close>

record ('u, 'e) engine_api =
  napa_container_create :: "'e \<Rightarrow> napa_container_handle \<times> 'e"
  napa_container_init :: "napa_container_handle \<Rightarrow> napa_string_ref \<Rightarrow> 'e \<Rightarrow> NapaResponseCode \<times> 'e"
  napa_container_release :: "napa_container_handle \<Rightarrow> 'e \<Rightarrow> 'e"
  napa_container_set_global_value ::
    "napa_container_handle \<Rightarrow> napa_string_ref \<Rightarrow> addr \<Rightarrow> 'e \<Rightarrow> NapaResponseCode \<times> 'e"
  napa_container_load_file ::
    "napa_container_handle \<Rightarrow> napa_string_ref \<Rightarrow> completion_handler \<Rightarrow> addr \<Rightarrow> 'e \<Rightarrow> 'e"
  napa_container_load_file_sync ::
    "napa_container_handle \<Rightarrow> napa_string_ref \<Rightarrow> 'e \<Rightarrow> NapaResponseCode \<times> 'e"
  napa_container_load ::
    "napa_container_handle \<Rightarrow> napa_string_ref \<Rightarrow> completion_handler \<Rightarrow> addr \<Rightarrow> 'e \<Rightarrow> 'e"
  napa_container_load_sync ::
    "napa_container_handle \<Rightarrow> napa_string_ref \<Rightarrow> 'e \<Rightarrow> NapaResponseCode \<times> 'e"
  napa_container_run ::
    "napa_container_handle \<Rightarrow> napa_string_ref \<Rightarrow> nat \<Rightarrow> addr \<Rightarrow> completion_handler \<Rightarrow> addr
       \<Rightarrow> uint32_t \<Rightarrow> 'u heap \<Rightarrow> 'e \<Rightarrow> 'e"
  napa_container_run_sync ::
    "napa_container_handle \<Rightarrow> napa_string_ref \<Rightarrow> nat \<Rightarrow> addr \<Rightarrow> uint32_t \<Rightarrow> 'u heap \<Rightarrow> 'e
       \<Rightarrow> napa_container_response \<times> 'e"
  engine_memory :: "'e \<Rightarrow> memory"

subsection \<open>Container\<close>

text \<open>The one data member of \<open>Container\<close> is \<open>_handle\<close>.\<close>

record Container =
  handle :: napa_container_handle

text \<open>
  \<open>Container::Container\<close>: the handle is what \<open>napa_container_create\<close> returns; the
  value that \<open>napa_container_init\<close> returns is not used.
\<close>

definition Container_ctor :: "('u, 'e) engine_api \<Rightarrow> std_string \<Rightarrow> 'e \<Rightarrow> Container \<times> 'e" where
  "Container_ctor E settings e =
     (let (h, e1) = napa_container_create E e;
          (rc, e2) = napa_container_init E h (STD_STRING_TO_NAPA_STRING_REF settings) e1
      in (\<lparr>handle = h\<rparr>, e2))"

text \<open>\<open>Container::~Container\<close>.\<close>

definition Container_dtor :: "('u, 'e) engine_api \<Rightarrow> Container \<Rightarrow> 'e \<Rightarrow> 'e" where
  "Container_dtor E c e = napa_container_release E (handle c) e"

text \<open>
  The class declares no copy constructor and no copy assignment, and deletes neither
  (\<open>AsyncCompletionContext\<close> deletes all four copy and move operations). The compiler
  therefore defines the copy constructor, which copies \<open>_handle\<close>.
\<close>

definition Container_copy :: "Container \<Rightarrow> Container" where
  "Container_copy other = \<lparr>handle = handle other\<rparr>"

definition SetGlobalValue ::
  "('u, 'e) engine_api \<Rightarrow> Container \<Rightarrow> std_string \<Rightarrow> addr \<Rightarrow> 'e \<Rightarrow> NapaResponseCode \<times> 'e" where
  "SetGlobalValue E c key val e =
     napa_container_set_global_value E (handle c) (STD_STRING_TO_NAPA_STRING_REF key) val e"

definition LoadFileSync ::
  "('u, 'e) engine_api \<Rightarrow> Container \<Rightarrow> std_string \<Rightarrow> 'e \<Rightarrow> NapaResponseCode \<times> 'e" where
  "LoadFileSync E c file e =
     napa_container_load_file_sync E (handle c) (STD_STRING_TO_NAPA_STRING_REF file) e"

definition LoadSync ::
  "('u, 'e) engine_api \<Rightarrow> Container \<Rightarrow> std_string \<Rightarrow> 'e \<Rightarrow> NapaResponseCode \<times> 'e" where
  "LoadSync E c source e =
     napa_container_load_sync E (handle c) (STD_STRING_TO_NAPA_STRING_REF source) e"

subsection \<open>The free store and the asynchronous calls\<close>

text \<open>
  The state in which the wrapper runs: the free store, the user's state (which only
  callbacks change) and the engine's state.
\<close>

record ('u, 'e) world =
  heap :: "'u heap"
  user :: 'u
  engine :: 'e

text \<open>
  \<open>new\<close> returns an address that is not in use. Which one is the allocator's choice: it
  is an argument of every function that allocates, and a choice already in use is
  refused.
\<close>

definition new_object :: "addr \<Rightarrow> 'u object \<Rightarrow> 'u heap \<Rightarrow> fault + 'u heap" where
  "new_object p obj h = (if h p = None then Inr (h(p \<mapsto> obj)) else Inl Address_in_use)"

definition delete_object :: "addr \<Rightarrow> 'u heap \<Rightarrow> 'u heap" where
  "delete_object p h = h(p := None)"

text \<open>\<open>Container::LoadFile\<close>: \<open>ctx\<close> is the address of the new completion context.\<close>

definition LoadFile ::
  "('u, 'e) engine_api \<Rightarrow> Container \<Rightarrow> std_string \<Rightarrow> 'u LoadCallback \<Rightarrow> addr
     \<Rightarrow> ('u, 'e) world \<Rightarrow> fault + ('u, 'e) world" where
  "LoadFile E c file cb ctx s =
     (case new_object ctx (Load_context \<lparr>callback = cb\<rparr>) (heap s) of
        Inl f \<Rightarrow> Inl f
      | Inr h \<Rightarrow>
          Inr (s\<lparr>heap := h,
                 engine := napa_container_load_file E (handle c)
                   (STD_STRING_TO_NAPA_STRING_REF file) CompletionHandler_LoadCallback ctx
                   (engine s)\<rparr>))"

text \<open>\<open>Container::Load\<close>.\<close>

definition Load ::
  "('u, 'e) engine_api \<Rightarrow> Container \<Rightarrow> std_string \<Rightarrow> 'u LoadCallback \<Rightarrow> addr
     \<Rightarrow> ('u, 'e) world \<Rightarrow> fault + ('u, 'e) world" where
  "Load E c source cb ctx s =
     (case new_object ctx (Load_context \<lparr>callback = cb\<rparr>) (heap s) of
        Inl f \<Rightarrow> Inl f
      | Inr h \<Rightarrow>
          Inr (s\<lparr>heap := h,
                 engine := napa_container_load E (handle c)
                   (STD_STRING_TO_NAPA_STRING_REF source) CompletionHandler_LoadCallback ctx
                   (engine s)\<rparr>))"

text \<open>
  \<open>Container::Run\<close>: \<open>argv\<close> is a local vector whose element buffer is at \<open>argv_data\<close>
  (what \<open>argv.data()\<close> returns); the context is allocated next, at \<open>ctx\<close>; the engine is
  called; on return the destructor of \<open>argv\<close> releases the buffer. An empty vector is
  given a buffer as well, of no elements.
\<close>

definition Run ::
  "('u, 'e) engine_api \<Rightarrow> Container \<Rightarrow> std_string \<Rightarrow> std_string list \<Rightarrow> 'u RunCallback
     \<Rightarrow> uint32_t \<Rightarrow> addr \<Rightarrow> addr \<Rightarrow> ('u, 'e) world \<Rightarrow> fault + ('u, 'e) world" where
  "Run E c func args cb timeout argv_data ctx s =
     (let argv = ConvertToNapaRuntimeArgs args in
      case new_object argv_data (Vector_buffer argv) (heap s) of
        Inl f \<Rightarrow> Inl f
      | Inr h1 \<Rightarrow>
          (case new_object ctx (Run_context \<lparr>callback = cb\<rparr>) h1 of
             Inl f \<Rightarrow> Inl f
           | Inr h2 \<Rightarrow>
               Inr (s\<lparr>heap := delete_object argv_data h2,
                      engine := napa_container_run E (handle c)
                        (STD_STRING_TO_NAPA_STRING_REF func) (length argv) argv_data
                        CompletionHandler_RunCallback ctx timeout h2 (engine s)\<rparr>)))"

text \<open>
  \<open>Container::RunSync\<close>: the response is converted once the engine has returned, from
  the bytes readable then, and \<open>argv\<close> is destroyed on return.
\<close>

definition RunSync ::
  "('u, 'e) engine_api \<Rightarrow> Container \<Rightarrow> std_string \<Rightarrow> std_string list \<Rightarrow> uint32_t \<Rightarrow> addr
     \<Rightarrow> ('u, 'e) world \<Rightarrow> fault + Response \<times> ('u, 'e) world" where
  "RunSync E c func args timeout argv_data s =
     (let argv = ConvertToNapaRuntimeArgs args in
      case new_object argv_data (Vector_buffer argv) (heap s) of
        Inl f \<Rightarrow> Inl f
      | Inr h1 \<Rightarrow>
          (let (response, e1) = napa_container_run_sync E (handle c)
                 (STD_STRING_TO_NAPA_STRING_REF func) (length argv) argv_data timeout h1
                 (engine s)
           in case Response_from (engine_memory E e1) response of
                Inl f \<Rightarrow> Inl f
              | Inr r \<Rightarrow> Inr (r, s\<lparr>heap := delete_object argv_data h1, engine := e1\<rparr>)))"

subsection \<open>The completion bridge\<close>

text \<open>
  \<open>internal::CompletionHandler<LoadCallback, NapaResponseCode>\<close>: the \<open>unique_ptr\<close>
  takes the context over from the raw pointer, the callback is called with the response,
  and the \<open>unique_ptr\<close> deletes the context when the handler returns.
\<close>

definition CompletionHandler_Load ::
  "NapaResponseCode \<Rightarrow> addr \<Rightarrow> ('u, 'e) world \<Rightarrow> fault + ('u, 'e) world" where
  "CompletionHandler_Load response ctx s =
     (case heap s ctx of
        Some (Load_context completionContext) \<Rightarrow>
          (let s1 = s\<lparr>user := callback completionContext response (user s)\<rparr>
           in Inr (s1\<lparr>heap := delete_object ctx (heap s1)\<rparr>))
      | _ \<Rightarrow> Inl Invalid_context)"

text \<open>
  \<open>internal::CompletionHandler<RunCallback, napa_container_response>\<close>: the callback
  takes a \<open>Response\<close>, so the call converts the engine's response with the converting
  constructor of \<open>Response\<close>.
\<close>

definition CompletionHandler_Run ::
  "('u, 'e) engine_api \<Rightarrow> napa_container_response \<Rightarrow> addr \<Rightarrow> ('u, 'e) world
     \<Rightarrow> fault + ('u, 'e) world" where
  "CompletionHandler_Run E response ctx s =
     (case heap s ctx of
        Some (Run_context completionContext) \<Rightarrow>
          (case Response_from (engine_memory E (engine s)) response of
             Inl f \<Rightarrow> Inl f
           | Inr r \<Rightarrow>
               (let s1 = s\<lparr>user := callback completionContext r (user s)\<rparr>
                in Inr (s1\<lparr>heap := delete_object ctx (heap s1)\<rparr>)))
      | _ \<Rightarrow> Inl Invalid_context)"

subsection \<open>What happens over time\<close>

text \<open>
  The calls of the user into the wrapper, the engine's calls of the completion handler
  it was given, and the engine's own progress, one after the other.
\<close>

datatype ('u, 'e) event =
    Call_LoadFile Container std_string "'u LoadCallback" addr
  | Call_Load Container std_string "'u LoadCallback" addr
  | Call_Run Container std_string "std_string list" "'u RunCallback" uint32_t addr addr
  | Call_RunSync Container std_string "std_string list" uint32_t addr
  | Complete_Load NapaResponseCode addr
  | Complete_Run napa_container_response addr
  | Engine_step "'e \<Rightarrow> 'e"

fun step :: "('u, 'e) engine_api \<Rightarrow> ('u, 'e) event \<Rightarrow> ('u, 'e) world \<Rightarrow> fault + ('u, 'e) world" where
  "step E (Call_LoadFile c file cb ctx) s = LoadFile E c file cb ctx s"
| "step E (Call_Load c source cb ctx) s = Load E c source cb ctx s"
| "step E (Call_Run c func args cb timeout argv_data ctx) s =
     Run E c func args cb timeout argv_data ctx s"
| "step E (Call_RunSync c func args timeout argv_data) s =
     (case RunSync E c func args timeout argv_data s of
        Inl f \<Rightarrow> Inl f
      | Inr (r, s1) \<Rightarrow> Inr s1)"
| "step E (Complete_Load response ctx) s = CompletionHandler_Load response ctx s"
| "step E (Complete_Run response ctx) s = CompletionHandler_Run E response ctx s"
| "step E (Engine_step f) s = Inr (s\<lparr>engine := f (engine s)\<rparr>)"

fun run_events ::
  "('u, 'e) engine_api \<Rightarrow> ('u, 'e) event list \<Rightarrow> ('u, 'e) world \<Rightarrow> fault + ('u, 'e) world" where
  "run_events E [] s = Inr s"
| "run_events E (ev # evs) s =
     (case step E ev s of Inl f \<Rightarrow> Inl f | Inr s1 \<Rightarrow> run_events E evs s1)"

text \<open>The callback that a submission stores, of either type.\<close>

datatype 'u stored_callback = Stored_load "'u LoadCallback" | Stored_run "'u RunCallback"

text \<open>The context object that a submission puts in the free store.\<close>

fun stored_context :: "'u stored_callback \<Rightarrow> 'u object" where
  "stored_context (Stored_load cb) = Load_context \<lparr>callback = cb\<rparr>"
| "stored_context (Stored_run cb) = Run_context \<lparr>callback = cb\<rparr>"

text \<open>The context pointer and the callback of an asynchronous submission.\<close>

fun submission :: "('u, 'e) event \<Rightarrow> (addr \<times> 'u stored_callback) option" where
  "submission (Call_LoadFile c file cb ctx) = Some (ctx, Stored_load cb)"
| "submission (Call_Load c source cb ctx) = Some (ctx, Stored_load cb)"
| "submission (Call_Run c func args cb timeout argv_data ctx) = Some (ctx, Stored_run cb)"
| "submission _ = None"

text \<open>The context pointer with which the engine calls a completion handler.\<close>

fun completion :: "('u, 'e) event \<Rightarrow> addr option" where
  "completion (Complete_Load response ctx) = Some ctx"
| "completion (Complete_Run response ctx) = Some ctx"
| "completion _ = None"

subsection \<open>An engine for the examples\<close>

text \<open>
  Modelled from the spec: a small engine against which the examples run, since the
  engine itself is outside the header. It hands out handles in turn, accepts only the
  empty settings text, writes down every release and every asynchronous request (the
  handler, the context pointer, the argument count, the argument pointer and the
  timeout), and answers a synchronous run with Success and the return value \<open>3\<close> when
  no timeout is set and with Timeout and a message otherwise.
\<close>

record recorder =
  next_handle :: napa_container_handle
  released :: "napa_container_handle list"
  requests :: "(completion_handler \<times> addr \<times> nat \<times> addr \<times> uint32_t) list"
  storage :: "(addr \<times> char) list"

definition success_response :: napa_container_response where
  "success_response =
     \<lparr>response_code = NAPA_RESPONSE_SUCCESS,
      response_error = \<lparr>ref_data = 0, ref_size = 0\<rparr>,
      return_value = \<lparr>ref_data = 100, ref_size = 1\<rparr>\<rparr>"

definition timeout_response :: napa_container_response where
  "timeout_response =
     \<lparr>response_code = NAPA_RESPONSE_TIMEOUT,
      response_error = \<lparr>ref_data = 200, ref_size = 7\<rparr>,
      return_value = \<lparr>ref_data = 0, ref_size = 0\<rparr>\<rparr>"

definition recording_engine :: "('u, recorder) engine_api" where
  "recording_engine =
     \<lparr>napa_container_create = (\<lambda>e. (next_handle e, e\<lparr>next_handle := Suc (next_handle e)\<rparr>)),
      napa_container_init = (\<lambda>h settings e.
        (if ref_size settings = 0 then NAPA_RESPONSE_SUCCESS
         else NAPA_RESPONSE_INITIALIZATION_FAILURE, e)),
      napa_container_release = (\<lambda>h e. e\<lparr>released := released e @ [h]\<rparr>),
      napa_container_set_global_value = (\<lambda>h key val e. (NAPA_RESPONSE_SUCCESS, e)),
      napa_container_load_file = (\<lambda>h file handler ctx e.
        e\<lparr>requests := requests e @ [(handler, ctx, 0, 0, 0)]\<rparr>),
      napa_container_load_file_sync = (\<lambda>h file e. (NAPA_RESPONSE_SUCCESS, e)),
      napa_container_load = (\<lambda>h source handler ctx e.
        e\<lparr>requests := requests e @ [(handler, ctx, 0, 0, 0)]\<rparr>),
      napa_container_load_sync = (\<lambda>h source e. (NAPA_RESPONSE_SUCCESS, e)),
      napa_container_run = (\<lambda>h func argc argv handler ctx timeout store e.
        e\<lparr>requests := requests e @ [(handler, ctx, argc, argv, timeout)]\<rparr>),
      napa_container_run_sync = (\<lambda>h func argc argv timeout store e.
        (if timeout = 0 then success_response else timeout_response, e)),
      engine_memory = (\<lambda>e. map_of (storage e))\<rparr>"

definition recorder_start :: recorder where
  "recorder_start =
     \<lparr>next_handle = 0, released = [], requests = [],
      storage = (100, CHR ''3'') # zip [200 ..< 207] ''timeout''\<rparr>"

text \<open>The state before anything is allocated, over a user state that is a log.\<close>

definition world_start :: "('l list, recorder) world" where
  "world_start = \<lparr>heap = (\<lambda>a. None), user = [], engine = recorder_start\<rparr>"

subsection \<open>Inputs of the examples\<close>

definition add_name :: std_string where
  "add_name = \<lparr>data = 10, chars = ''add''\<rparr>"

definition add_args :: "std_string list" where
  "add_args = [\<lparr>data = 20, chars = ''1''\<rparr>, \<lparr>data = 30, chars = ''2''\<rparr>]"

definition empty_settings :: std_string where
  "empty_settings = \<lparr>data = 40, chars = []\<rparr>"

definition bad_settings :: std_string where
  "bad_settings = \<lparr>data = 50, chars = ''{''\<rparr>"


text \<open>A callback that writes its name and what it was called with at the end of a log.\<close>

definition log_as :: "string \<Rightarrow> 'r \<Rightarrow> (string \<times> 'r) list \<Rightarrow> (string \<times> 'r) list" where
  "log_as name r log = log @ [(name, r)]"

text \<open>
  Two asynchronous runs on one container, back to back. The vector buffer of the first
  is released when it returns, so the second may be given the same address.
\<close>

definition run_A :: "((string \<times> Response) list, recorder) event" where
  "run_A = Call_Run \<lparr>handle = 0\<rparr> add_name add_args (log_as ''A'') 0 3 2"

definition run_B :: "((string \<times> Response) list, recorder) event" where
  "run_B = Call_Run \<lparr>handle = 0\<rparr> add_name add_args (log_as ''B'') 5 3 4"

text \<open>An asynchronous load of a file and one of a source text, on the same container.\<close>

definition script_file :: std_string where
  "script_file = \<lparr>data = 60, chars = ''add.js''\<rparr>"

definition script_source :: std_string where
  "script_source = \<lparr>data = 70, chars = ''function add(a,b){return a+b}''\<rparr>"

definition load_file_F :: "((string \<times> NapaResponseCode) list, recorder) event" where
  "load_file_F = Call_LoadFile \<lparr>handle = 0\<rparr> script_file (log_as ''F'') 6"

definition load_L :: "((string \<times> NapaResponseCode) list, recorder) event" where
  "load_L = Call_Load \<lparr>handle = 0\<rparr> script_source (log_as ''L'') 7"

section \<open>Properties\<close>

subsection \<open>Auxiliary facts\<close>

lemma emplace_back_each_eq:
  "emplace_back_each args (res, n) =
     (res @ map STD_STRING_TO_NAPA_STRING_REF args, n + length args)"
  by (induction args arbitrary: res n) simp_all

lemma ConvertToNapaRuntimeArgs_map:
  "ConvertToNapaRuntimeArgs args = map STD_STRING_TO_NAPA_STRING_REF args"
  by (simp add: ConvertToNapaRuntimeArgs_def ConvertToNapaRuntimeArgs_counted_def
      emplace_back_each_eq)

lemma read_view_Inr:
  "NAPA_STRING_REF_TO_STD_STRING m r = Inr t \<Longrightarrow>
     length t = ref_size r \<and> (\<forall>i<ref_size r. m (ref_data r + i) = Some (t ! i))"
  by (auto simp: NAPA_STRING_REF_TO_STD_STRING_def view_range_def list_all_iff
      split: if_splits)


lemma read_view_readable:
  assumes "\<forall>i<ref_size r. m (ref_data r + i) \<noteq> None"
  shows "\<exists>t. NAPA_STRING_REF_TO_STD_STRING m r = Inr t"
proof -
  have "\<forall>a\<in>set (view_range r). m a \<noteq> None"
  proof
    fix a assume "a \<in> set (view_range r)"
    then have "ref_data r \<le> a" "a < ref_data r + ref_size r"
      by (simp_all add: view_range_def)
    then obtain i where "a = ref_data r + i" "i < ref_size r"
      by (metis add_less_cancel_left le_Suc_ex)
    with assms show "m a \<noteq> None" by simp
  qed
  then show ?thesis
    by (simp add: NAPA_STRING_REF_TO_STD_STRING_def list_all_iff)
qed


lemma fresh_upd_delete: "h p = None \<Longrightarrow> delete_object p (h(p \<mapsto> x)) = h"
  by (auto simp: delete_object_def)

lemma Response_from_success:
  "Response_from (map_of (storage recorder_start)) success_response
     = Inr \<lparr>code = NAPA_RESPONSE_SUCCESS, error = [], returnValue = ''3''\<rparr>"
  by (simp add: Response_from_def NAPA_STRING_REF_TO_STD_STRING_def view_range_def
      recorder_start_def success_response_def)

lemma Response_from_timeout:
  "Response_from (map_of (storage recorder_start)) timeout_response
     = Inr \<lparr>code = NAPA_RESPONSE_TIMEOUT, error = ''timeout'', returnValue = []\<rparr>"
  by (simp add: Response_from_def NAPA_STRING_REF_TO_STD_STRING_def view_range_def
      recorder_start_def timeout_response_def)

lemma recording_engine_run:
  "napa_container_run recording_engine h func argc argv handler ctx timeout store e
     = e\<lparr>requests := requests e @ [(handler, ctx, argc, argv, timeout)]\<rparr>"
  by (simp add: recording_engine_def)

lemma recording_engine_run_sync:
  "napa_container_run_sync recording_engine h func argc argv timeout store e
     = (if timeout = 0 then success_response else timeout_response, e)"
  by (simp add: recording_engine_def)

lemma recording_engine_memory:
  "engine_memory recording_engine e = map_of (storage e)"
  by (simp add: recording_engine_def)

text \<open>
  A submission finds its context address unused and leaves the context there; every
  other step leaves a live object where it is.
\<close>

lemma submission_stores:
  "step E ev s = Inr s1 \<Longrightarrow> submission ev = Some (ctx, k) \<Longrightarrow>
     heap s ctx = None \<and> heap s1 ctx = Some (stored_context k)"
  by (cases ev)
    (auto simp: LoadFile_def Load_def Run_def new_object_def delete_object_def Let_def
      split: if_splits)

lemma step_keeps_object:
  "step E ev s = Inr s1 \<Longrightarrow> heap s p = Some obj \<Longrightarrow> completion ev \<noteq> Some p \<Longrightarrow>
     heap s1 p = Some obj"
  by (cases ev)
    (auto simp: LoadFile_def Load_def Run_def RunSync_def CompletionHandler_Load_def
      CompletionHandler_Run_def new_object_def delete_object_def Let_def
      split: if_splits sum.splits option.splits object.splits prod.splits)

lemma run_events_keeps_object:
  "run_events E evs s = Inr s1 \<Longrightarrow> heap s p = Some obj \<Longrightarrow>
     \<forall>ev\<in>set evs. completion ev \<noteq> Some p \<Longrightarrow> heap s1 p = Some obj"
proof (induction evs arbitrary: s)
  case Nil
  then show ?case by simp
next
  case (Cons ev evs)
  from Cons.prems(1) obtain s' where s': "step E ev s = Inr s'" "run_events E evs s' = Inr s1"
    by (auto split: sum.splits)
  from step_keeps_object [OF s'(1) Cons.prems(2)] Cons.prems(3)
  have "heap s' p = Some obj" by simp
  with Cons.IH [OF s'(2)] Cons.prems(3) show ?case by simp
qed

lemma run_events_later_submissions:
  "run_events E evs s = Inr s1 \<Longrightarrow> heap s p = Some obj \<Longrightarrow>
     \<forall>ev\<in>set evs. completion ev \<noteq> Some p \<Longrightarrow>
     \<forall>ev\<in>set evs. \<forall>q k. submission ev = Some (q, k) \<longrightarrow> q \<noteq> p"
proof (induction evs arbitrary: s)
  case Nil
  then show ?case by simp
next
  case (Cons ev evs)
  from Cons.prems(1) obtain s' where s': "step E ev s = Inr s'" "run_events E evs s' = Inr s1"
    by (auto split: sum.splits)
  from step_keeps_object [OF s'(1) Cons.prems(2)] Cons.prems(3)
  have keep: "heap s' p = Some obj" by simp
  have here: "\<forall>q k. submission ev = Some (q, k) \<longrightarrow> q \<noteq> p"
    using submission_stores [OF s'(1)] Cons.prems(2) by auto
  from Cons.IH [OF s'(2) keep] Cons.prems(3) here show ?case by simp
qed

text \<open>What each asynchronous submission returns when the addresses it is given are unused.\<close>

lemma LoadFile_unused:
  "heap s ctx = None \<Longrightarrow>
     LoadFile E c file cb ctx s
       = Inr (s\<lparr>heap := (heap s)(ctx \<mapsto> Load_context \<lparr>callback = cb\<rparr>),
                engine := napa_container_load_file E (handle c)
                  (STD_STRING_TO_NAPA_STRING_REF file) CompletionHandler_LoadCallback ctx
                  (engine s)\<rparr>)"
  by (simp add: LoadFile_def new_object_def)

lemma Load_unused:
  "heap s ctx = None \<Longrightarrow>
     Load E c source cb ctx s
       = Inr (s\<lparr>heap := (heap s)(ctx \<mapsto> Load_context \<lparr>callback = cb\<rparr>),
                engine := napa_container_load E (handle c)
                  (STD_STRING_TO_NAPA_STRING_REF source) CompletionHandler_LoadCallback ctx
                  (engine s)\<rparr>)"
  by (simp add: Load_def new_object_def)

lemma Run_unused:
  assumes "heap s argv_data = None" "heap s ctx = None" "argv_data \<noteq> ctx"
  shows "Run E c func args cb timeout argv_data ctx s
       = Inr (s\<lparr>heap := (heap s)(ctx \<mapsto> Run_context \<lparr>callback = cb\<rparr>),
                engine := napa_container_run E (handle c)
                  (STD_STRING_TO_NAPA_STRING_REF func) (length args) argv_data
                  CompletionHandler_RunCallback ctx timeout
                  ((heap s)(argv_data \<mapsto> Vector_buffer (map STD_STRING_TO_NAPA_STRING_REF args),
                            ctx \<mapsto> Run_context \<lparr>callback = cb\<rparr>))
                  (engine s)\<rparr>)"
proof -
  have "delete_object argv_data
        ((heap s)(argv_data \<mapsto> Vector_buffer (map STD_STRING_TO_NAPA_STRING_REF args),
                  ctx \<mapsto> Run_context \<lparr>callback = cb\<rparr>))
      = (heap s)(ctx \<mapsto> Run_context \<lparr>callback = cb\<rparr>)"
    using assms by (auto simp: delete_object_def)
  with assms show ?thesis
    by (simp add: Run_def new_object_def Let_def ConvertToNapaRuntimeArgs_map)
qed

lemma load_context_completion:
  assumes "run_events E evs s1 = Inr s2"
      and "\<forall>later\<in>set evs. completion later \<noteq> Some ctx"
      and "heap s1 ctx = Some (Load_context \<lparr>callback = cb\<rparr>)"
  shows "CompletionHandler_Load response ctx s2
           = Inr (s2\<lparr>user := cb response (user s2), heap := (heap s2)(ctx := None)\<rparr>)"
proof -
  from run_events_keeps_object [OF assms(1) assms(3) assms(2)]
  have "heap s2 ctx = Some (Load_context \<lparr>callback = cb\<rparr>)" .
  then show ?thesis
    by (simp add: CompletionHandler_Load_def delete_object_def Let_def)
qed

lemma run_context_completion:
  assumes "run_events E evs s1 = Inr s2"
      and "\<forall>later\<in>set evs. completion later \<noteq> Some ctx"
      and "Response_from (engine_memory E (engine s2)) response = Inr r"
      and "heap s1 ctx = Some (Run_context \<lparr>callback = cb\<rparr>)"
  shows "CompletionHandler_Run E response ctx s2
           = Inr (s2\<lparr>user := cb r (user s2), heap := (heap s2)(ctx := None)\<rparr>)"
proof -
  from run_events_keeps_object [OF assms(1) assms(4) assms(2)]
  have "heap s2 ctx = Some (Run_context \<lparr>callback = cb\<rparr>)" .
  with assms(3) show ?thesis
    by (simp add: CompletionHandler_Run_def delete_object_def Let_def)
qed

lemma later_submissions_differ:
  assumes "run_events E evs s1 = Inr s2"
      and "\<forall>later\<in>set evs. completion later \<noteq> Some ctx"
      and "heap s1 ctx = Some obj"
  shows "\<forall>later\<in>set evs. \<forall>q k. submission later = Some (q, k) \<longrightarrow> q \<noteq> ctx"
  using run_events_later_submissions [OF assms(1) assms(3) assms(2)] .

subsection \<open>The completion bridge\<close>

text \<open>
  C1. For each of \<open>LoadFile\<close>, \<open>Load\<close> and \<open>Run\<close>: when the addresses given to the
  submission are unused, the submission returns, and the state it returns is the state
  before with two changes only: the free store holds, at the context pointer \<open>ctx\<close>, a
  completion context with the callback that was supplied, and the engine has been called
  once, with the container's handle, the view of the text, the completion handler of the
  callback's type and the pointer \<open>ctx\<close> (for \<open>Run\<close> also with the number of
  arguments, the pointer to their views, which are in the free store during the call,
  and the timeout). The user's state is as before: no callback has run. Then let
  anything happen (further submissions, synchronous runs, completions of other contexts,
  progress of the engine) as long as the engine has not yet completed \<open>ctx\<close>. When the
  engine then calls the completion handler with \<open>ctx\<close>, the user's state becomes the
  result of one call of the supplied callback, on the response code for a load and on
  the converted \<open>Response\<close> for a run, and the context is gone from the free store;
  nothing else changes. No later submission was given the pointer \<open>ctx\<close>, so no other
  submission's completion reaches this callback and this completion reaches no other
  callback.
\<close>

theorem completion_invokes_stored_callback:
  "(heap s ctx = None \<longrightarrow>
      (let s1 = s\<lparr>heap := (heap s)(ctx \<mapsto> Load_context \<lparr>callback = cbl\<rparr>),
                   engine := napa_container_load_file E (handle c)
                     (STD_STRING_TO_NAPA_STRING_REF path) CompletionHandler_LoadCallback ctx
                     (engine s)\<rparr>
       in LoadFile E c path cbl ctx s = Inr s1
          \<and> (\<forall>evs s2.
                run_events E evs s1 = Inr s2 \<longrightarrow>
                (\<forall>later\<in>set evs. completion later \<noteq> Some ctx) \<longrightarrow>
                (\<forall>response.
                   CompletionHandler_Load response ctx s2
                     = Inr (s2\<lparr>user := cbl response (user s2),
                              heap := (heap s2)(ctx := None)\<rparr>))
                \<and> (\<forall>later\<in>set evs. \<forall>q k. submission later = Some (q, k) \<longrightarrow> q \<noteq> ctx))))
   \<and> (heap s ctx = None \<longrightarrow>
      (let s1 = s\<lparr>heap := (heap s)(ctx \<mapsto> Load_context \<lparr>callback = cbl\<rparr>),
                   engine := napa_container_load E (handle c)
                     (STD_STRING_TO_NAPA_STRING_REF src) CompletionHandler_LoadCallback ctx
                     (engine s)\<rparr>
       in Load E c src cbl ctx s = Inr s1
          \<and> (\<forall>evs s2.
                run_events E evs s1 = Inr s2 \<longrightarrow>
                (\<forall>later\<in>set evs. completion later \<noteq> Some ctx) \<longrightarrow>
                (\<forall>response.
                   CompletionHandler_Load response ctx s2
                     = Inr (s2\<lparr>user := cbl response (user s2),
                              heap := (heap s2)(ctx := None)\<rparr>))
                \<and> (\<forall>later\<in>set evs. \<forall>q k. submission later = Some (q, k) \<longrightarrow> q \<noteq> ctx))))
   \<and> (heap s argv_data = None \<and> heap s ctx = None \<and> argv_data \<noteq> ctx \<longrightarrow>
      (let s1 = s\<lparr>heap := (heap s)(ctx \<mapsto> Run_context \<lparr>callback = cbr\<rparr>),
                   engine := napa_container_run E (handle c)
                     (STD_STRING_TO_NAPA_STRING_REF func) (length args) argv_data
                     CompletionHandler_RunCallback ctx timeout
                     ((heap s)(argv_data \<mapsto>
                          Vector_buffer (map STD_STRING_TO_NAPA_STRING_REF args),
                        ctx \<mapsto> Run_context \<lparr>callback = cbr\<rparr>))
                     (engine s)\<rparr>
       in Run E c func args cbr timeout argv_data ctx s = Inr s1
          \<and> (\<forall>evs s2.
                run_events E evs s1 = Inr s2 \<longrightarrow>
                (\<forall>later\<in>set evs. completion later \<noteq> Some ctx) \<longrightarrow>
                (\<forall>response r.
                   Response_from (engine_memory E (engine s2)) response = Inr r \<longrightarrow>
                   CompletionHandler_Run E response ctx s2
                     = Inr (s2\<lparr>user := cbr r (user s2), heap := (heap s2)(ctx := None)\<rparr>))
                \<and> (\<forall>later\<in>set evs. \<forall>q k. submission later = Some (q, k) \<longrightarrow> q \<noteq> ctx))))"
  unfolding Let_def
  apply (intro conjI impI allI)
  subgoal by (rule LoadFile_unused)
  subgoal by (erule (1) load_context_completion) simp
  subgoal by (erule (1) later_submissions_differ) simp
  subgoal by (rule Load_unused)
  subgoal by (erule (1) load_context_completion) simp
  subgoal by (erule (1) later_submissions_differ) simp
  subgoal by (elim conjE) (rule Run_unused)
  subgoal by (erule (2) run_context_completion) simp
  subgoal by (erule (1) later_submissions_differ) simp
  done

text \<open>
  Two runs A and B are submitted back to back on one container; the engine completes B
  with a timeout and then A with success. A file load F and a source load L are
  submitted back to back; the engine completes L with a load failure and then F with
  success. Each log holds one entry of each callback, with its own submission's result.
\<close>

theorem completion_invokes_stored_callback_witness:
  "map_sum id user
     (run_events recording_engine
        [run_A, run_B, Complete_Run timeout_response 4, Complete_Run success_response 2]
        world_start)
     = Inr [(''B'', \<lparr>code = NAPA_RESPONSE_TIMEOUT, error = ''timeout'', returnValue = []\<rparr>),
            (''A'', \<lparr>code = NAPA_RESPONSE_SUCCESS, error = [], returnValue = ''3''\<rparr>)]
   \<and> map_sum id user
     (run_events recording_engine
        [load_file_F, load_L, Complete_Load NAPA_RESPONSE_LOAD_FAILURE 7,
         Complete_Load NAPA_RESPONSE_SUCCESS 6]
        world_start)
     = Inr [(''L'', NAPA_RESPONSE_LOAD_FAILURE), (''F'', NAPA_RESPONSE_SUCCESS)]"
proof -
  have runs:
    "map_sum id user
       (run_events recording_engine
          [run_A, run_B, Complete_Run timeout_response 4, Complete_Run success_response 2]
          world_start)
       = Inr [(''B'', \<lparr>code = NAPA_RESPONSE_TIMEOUT, error = ''timeout'', returnValue = []\<rparr>),
              (''A'', \<lparr>code = NAPA_RESPONSE_SUCCESS, error = [], returnValue = ''3''\<rparr>)]"
  proof -
    let ?E = "recording_engine :: ((string \<times> Response) list, recorder) engine_api"
    let ?w = "world_start :: ((string \<times> Response) list, recorder) world"
    let ?c = "\<lparr>handle = 0\<rparr>"
    let ?Rt = "\<lparr>code = NAPA_RESPONSE_TIMEOUT, error = ''timeout'', returnValue = []\<rparr>"
    let ?Rs = "\<lparr>code = NAPA_RESPONSE_SUCCESS, error = [], returnValue = ''3''\<rparr>"
    define sA where "sA = ?w\<lparr>heap := (heap ?w)(2 \<mapsto> Run_context \<lparr>callback = log_as ''A''\<rparr>),
        engine := napa_container_run ?E (handle ?c)
          (STD_STRING_TO_NAPA_STRING_REF add_name) (length add_args) 3
          CompletionHandler_RunCallback 2 0
          ((heap ?w)(3 \<mapsto> Vector_buffer (map STD_STRING_TO_NAPA_STRING_REF add_args),
                     2 \<mapsto> Run_context \<lparr>callback = log_as ''A''\<rparr>))
          (engine ?w)\<rparr>"
    define sB where "sB = sA\<lparr>heap := (heap sA)(4 \<mapsto> Run_context \<lparr>callback = log_as ''B''\<rparr>),
        engine := napa_container_run ?E (handle ?c)
          (STD_STRING_TO_NAPA_STRING_REF add_name) (length add_args) 3
          CompletionHandler_RunCallback 4 5
          ((heap sA)(3 \<mapsto> Vector_buffer (map STD_STRING_TO_NAPA_STRING_REF add_args),
                     4 \<mapsto> Run_context \<lparr>callback = log_as ''B''\<rparr>))
          (engine sA)\<rparr>"
    define sB' where "sB' = sB\<lparr>user := log_as ''B'' ?Rt (user sB), heap := (heap sB)(4 := None)\<rparr>"
    have fA: "heap ?w 3 = None \<and> heap ?w 2 = None \<and> (3::nat) \<noteq> 2"
      by (simp add: world_start_def)
    have fB: "heap sA 3 = None \<and> heap sA 4 = None \<and> (3::nat) \<noteq> 4"
      by (simp add: sA_def world_start_def)
    note A = completion_invokes_stored_callback
      [where s = ?w and ctx = 2 and argv_data = 3 and cbr = "log_as ''A''" and E = ?E
         and c = ?c and func = add_name and args = add_args and timeout = 0,
       THEN conjunct2, THEN conjunct2, THEN mp, OF fA, unfolded Let_def, folded sA_def]
    note B = completion_invokes_stored_callback
      [where s = sA and ctx = 4 and argv_data = 3 and cbr = "log_as ''B''" and E = ?E
         and c = ?c and func = add_name and args = add_args and timeout = 5,
       THEN conjunct2, THEN conjunct2, THEN mp, OF fB, unfolded Let_def, folded sB_def]
    have 1: "Run ?E ?c add_name add_args (log_as ''A'') 0 3 2 ?w = Inr sA"
      using A [THEN conjunct1] .
    have 2: "Run ?E ?c add_name add_args (log_as ''B'') 5 3 4 sA = Inr sB"
      using B [THEN conjunct1] .
    have mB: "Response_from (engine_memory ?E (engine sB)) timeout_response = Inr ?Rt"
      by (simp add: sB_def sA_def world_start_def recording_engine_run recording_engine_memory
          Response_from_timeout)
    have 3: "CompletionHandler_Run ?E timeout_response 4 sB = Inr sB'"
      using B [THEN conjunct2, THEN spec, THEN spec, THEN mp, THEN mp, THEN conjunct1,
          THEN spec, THEN spec, THEN mp, of "[]" sB timeout_response ?Rt] mB
      by (simp add: sB'_def)
    have evs: "run_events ?E [run_B, Complete_Run timeout_response 4] sA = Inr sB'"
      by (simp add: run_B_def 2 3)
    have mA: "Response_from (engine_memory ?E (engine sB')) success_response = Inr ?Rs"
      by (simp add: sB'_def sB_def sA_def world_start_def recording_engine_run
          recording_engine_memory Response_from_success)
    have 4: "CompletionHandler_Run ?E success_response 2 sB'
        = Inr (sB'\<lparr>user := log_as ''A'' ?Rs (user sB'), heap := (heap sB')(2 := None)\<rparr>)"
      using A [THEN conjunct2, THEN spec, THEN spec, THEN mp, THEN mp, THEN conjunct1,
          THEN spec, THEN spec, THEN mp, OF evs _ mA]
      by (simp add: run_B_def)
    have u: "user sB' = [(''B'', ?Rt)]"
      by (simp add: sB'_def sB_def sA_def world_start_def log_as_def)
    have "run_events ?E
          [run_A, run_B, Complete_Run timeout_response 4, Complete_Run success_response 2] ?w
        = Inr (sB'\<lparr>user := log_as ''A'' ?Rs (user sB'), heap := (heap sB')(2 := None)\<rparr>)"
      by (simp add: run_A_def run_B_def 1 2 3 4)
    then show ?thesis
      by (simp only: u) (simp add: log_as_def)
  qed
  have loads:
    "map_sum id user
       (run_events recording_engine
          [load_file_F, load_L, Complete_Load NAPA_RESPONSE_LOAD_FAILURE 7,
           Complete_Load NAPA_RESPONSE_SUCCESS 6]
          world_start)
       = Inr [(''L'', NAPA_RESPONSE_LOAD_FAILURE), (''F'', NAPA_RESPONSE_SUCCESS)]"
  proof -
    let ?E = "recording_engine :: ((string \<times> NapaResponseCode) list, recorder) engine_api"
    let ?w = "world_start :: ((string \<times> NapaResponseCode) list, recorder) world"
    let ?c = "\<lparr>handle = 0\<rparr>"
    define sF where "sF = ?w\<lparr>heap := (heap ?w)(6 \<mapsto> Load_context \<lparr>callback = log_as ''F''\<rparr>),
        engine := napa_container_load_file ?E (handle ?c)
          (STD_STRING_TO_NAPA_STRING_REF script_file) CompletionHandler_LoadCallback 6
          (engine ?w)\<rparr>"
    define sL where "sL = sF\<lparr>heap := (heap sF)(7 \<mapsto> Load_context \<lparr>callback = log_as ''L''\<rparr>),
        engine := napa_container_load ?E (handle ?c)
          (STD_STRING_TO_NAPA_STRING_REF script_source) CompletionHandler_LoadCallback 7
          (engine sF)\<rparr>"
    define sL' where "sL' = sL\<lparr>user := log_as ''L'' NAPA_RESPONSE_LOAD_FAILURE (user sL),
        heap := (heap sL)(7 := None)\<rparr>"
    have fF: "heap ?w 6 = None"
      by (simp add: world_start_def)
    have fL: "heap sF 7 = None"
      by (simp add: sF_def world_start_def)
    note F = completion_invokes_stored_callback
      [where s = ?w and ctx = 6 and cbl = "log_as ''F''" and E = ?E and c = ?c
         and path = script_file,
       THEN conjunct1, rule_format, OF fF, unfolded Let_def, folded sF_def]
    note L = completion_invokes_stored_callback
      [where s = sF and ctx = 7 and cbl = "log_as ''L''" and E = ?E and c = ?c
         and src = script_source,
       THEN conjunct2, THEN conjunct1, rule_format, OF fL, unfolded Let_def, folded sL_def]
    have 1: "LoadFile ?E ?c script_file (log_as ''F'') 6 ?w = Inr sF"
      using F [THEN conjunct1] .
    have 2: "Load ?E ?c script_source (log_as ''L'') 7 sF = Inr sL"
      using L [THEN conjunct1] .
    have 3: "CompletionHandler_Load NAPA_RESPONSE_LOAD_FAILURE 7 sL = Inr sL'"
      using L [THEN conjunct2, THEN spec, THEN spec, THEN mp, THEN mp, THEN conjunct1,
          THEN spec, of "[]" sL NAPA_RESPONSE_LOAD_FAILURE]
      by (simp add: sL'_def)
    have evs: "run_events ?E [load_L, Complete_Load NAPA_RESPONSE_LOAD_FAILURE 7] sF = Inr sL'"
      by (simp add: load_L_def 2 3)
    have 4: "CompletionHandler_Load NAPA_RESPONSE_SUCCESS 6 sL'
        = Inr (sL'\<lparr>user := log_as ''F'' NAPA_RESPONSE_SUCCESS (user sL'),
                   heap := (heap sL')(6 := None)\<rparr>)"
      using F [THEN conjunct2, THEN spec, THEN spec, THEN mp, THEN mp, THEN conjunct1,
          THEN spec, OF evs, of NAPA_RESPONSE_SUCCESS]
      by (simp add: load_L_def)
    have u: "user sL' = [(''L'', NAPA_RESPONSE_LOAD_FAILURE)]"
      by (simp add: sL'_def sL_def sF_def world_start_def log_as_def)
    have "run_events ?E
          [load_file_F, load_L, Complete_Load NAPA_RESPONSE_LOAD_FAILURE 7,
           Complete_Load NAPA_RESPONSE_SUCCESS 6] ?w
        = Inr (sL'\<lparr>user := log_as ''F'' NAPA_RESPONSE_SUCCESS (user sL'),
                   heap := (heap sL')(6 := None)\<rparr>)"
      by (simp add: load_file_F_def load_L_def 1 2 3 4)
    then show ?thesis
      by (simp only: u) (simp add: log_as_def)
  qed
  from runs loads show ?thesis by (rule conjI)
qed

subsection \<open>Asynchronous submissions\<close>

text \<open>
  C9. For each of \<open>LoadFile\<close>, \<open>Load\<close> and \<open>Run\<close>: when the addresses given to the
  submission are unused, the submission returns, after its one call of the engine; the
  user's state on return is the user's state before, whatever the callback is, so the
  callback has not run; and the completion context with the callback is in the free
  store, waiting for the engine. More generally, every step other than a call of a
  completion handler by the engine leaves the user's state as it is: callbacks run in
  completions and nowhere else. How long the engine's entry point takes is outside the
  model.
\<close>

theorem submission_returns_before_callback:
  "(heap s ctx = None \<longrightarrow>
      (\<exists>s1. LoadFile E c path cbl ctx s = Inr s1 \<and> user s1 = user s
         \<and> heap s1 ctx = Some (Load_context \<lparr>callback = cbl\<rparr>)))
   \<and> (heap s ctx = None \<longrightarrow>
      (\<exists>s1. Load E c src cbl ctx s = Inr s1 \<and> user s1 = user s
         \<and> heap s1 ctx = Some (Load_context \<lparr>callback = cbl\<rparr>)))
   \<and> (heap s argv_data = None \<and> heap s ctx = None \<and> argv_data \<noteq> ctx \<longrightarrow>
      (\<exists>s1. Run E c func args cbr timeout argv_data ctx s = Inr s1 \<and> user s1 = user s
         \<and> heap s1 ctx = Some (Run_context \<lparr>callback = cbr\<rparr>)))
   \<and> (\<forall>ev s1. step E ev s = Inr s1 \<longrightarrow> completion ev = None \<longrightarrow> user s1 = user s)"
proof (intro conjI impI allI)
  fix ev s1
  assume "step E ev s = Inr s1" "completion ev = None"
  then show "user s1 = user s"
    by (cases ev)
      (auto simp: LoadFile_def Load_def Run_def RunSync_def new_object_def Let_def
        split: if_splits sum.splits prod.splits)
qed (simp_all add: LoadFile_unused Load_unused Run_unused)

theorem submission_returns_before_callback_witness:
  "map_sum id user (LoadFile recording_engine \<lparr>handle = 0\<rparr> script_file (log_as ''F'') 6
      (world_start :: ((string \<times> NapaResponseCode) list, recorder) world)) = Inr []
   \<and> map_sum id user (Load recording_engine \<lparr>handle = 0\<rparr> script_source (log_as ''L'') 7
      (world_start :: ((string \<times> NapaResponseCode) list, recorder) world)) = Inr []
   \<and> map_sum id user (Run recording_engine \<lparr>handle = 0\<rparr> add_name add_args (log_as ''A'') 0 1 2
      (world_start :: ((string \<times> Response) list, recorder) world)) = Inr []"
proof -
  let ?wl = "world_start :: ((string \<times> NapaResponseCode) list, recorder) world"
  let ?wr = "world_start :: ((string \<times> Response) list, recorder) world"
  have f6: "heap ?wl 6 = None" and f7: "heap ?wl 7 = None"
    by (simp_all add: world_start_def)
  have fr: "heap ?wr 1 = None \<and> heap ?wr 2 = None \<and> (1::nat) \<noteq> 2"
    by (simp add: world_start_def)
  have ul: "user ?wl = []" and ur: "user ?wr = []"
    by (simp_all add: world_start_def)
  from submission_returns_before_callback
    [where s = ?wl and ctx = 6 and E = recording_engine and c = "\<lparr>handle = 0\<rparr>"
       and path = script_file and cbl = "log_as ''F''",
     THEN conjunct1, THEN mp, OF f6]
  have a: "map_sum id user (LoadFile recording_engine \<lparr>handle = 0\<rparr> script_file
      (log_as ''F'') 6 ?wl) = Inr []"
    by (auto simp: ul)
  from submission_returns_before_callback
    [where s = ?wl and ctx = 7 and E = recording_engine and c = "\<lparr>handle = 0\<rparr>"
       and src = script_source and cbl = "log_as ''L''",
     THEN conjunct2, THEN conjunct1, THEN mp, OF f7]
  have b: "map_sum id user (Load recording_engine \<lparr>handle = 0\<rparr> script_source
      (log_as ''L'') 7 ?wl) = Inr []"
    by (auto simp: ul)
  from submission_returns_before_callback
    [where s = ?wr and ctx = 2 and argv_data = 1 and E = recording_engine
       and c = "\<lparr>handle = 0\<rparr>" and func = add_name and args = add_args
       and cbr = "log_as ''A''" and timeout = 0,
     THEN conjunct2, THEN conjunct2, THEN conjunct1, THEN mp, OF fr]
  have c: "map_sum id user (Run recording_engine \<lparr>handle = 0\<rparr> add_name add_args
      (log_as ''A'') 0 1 2 ?wr) = Inr []"
    by (auto simp: ur)
  from a b c show ?thesis by simp
qed

subsection \<open>Container\<close>

text \<open>
  C2. The claim asks that a failed initialisation yields no \<open>Container\<close>. The
  constructor does not look at what \<open>napa_container_init\<close> returns: for every engine,
  settings text and engine state it yields the container of the created handle, together
  with the engine state that the initialisation left. With the example engine, which
  answers the settings text \<open>{\<close> with an initialisation failure, the constructor still
  yields the container of handle 0.
\<close>

theorem Container_ctor_discards_init_code:
  "Container_ctor E settings e
     = (\<lparr>handle = fst (napa_container_create E e)\<rparr>,
        snd (napa_container_init E (fst (napa_container_create E e))
               (STD_STRING_TO_NAPA_STRING_REF settings) (snd (napa_container_create E e))))
   \<and> fst (napa_container_init recording_engine 0
            (STD_STRING_TO_NAPA_STRING_REF bad_settings) (recorder_start\<lparr>next_handle := 1\<rparr>))
       = NAPA_RESPONSE_INITIALIZATION_FAILURE
   \<and> Container_ctor recording_engine bad_settings recorder_start
       = (\<lparr>handle = 0\<rparr>, recorder_start\<lparr>next_handle := 1\<rparr>)"
  by (simp add: Container_ctor_def recording_engine_def recorder_start_def bad_settings_def
      STD_STRING_TO_NAPA_STRING_REF_def split: prod.splits)

text \<open>
  C3. The claim asks that no copy of a \<open>Container\<close> can be made. The class leaves the
  copy constructor to the compiler: the copy holds the handle of the original, and
  destroying both releases that handle twice. With the example engine, a container
  created from the empty settings text, copied, and destroyed together with its copy,
  leaves handle 0 released two times.
\<close>

theorem Container_copy_shares_handle:
  "handle (Container_copy c) = handle c
   \<and> Container_dtor E (Container_copy c) (Container_dtor E c e)
       = napa_container_release E (handle c) (napa_container_release E (handle c) e)
   \<and> released
       (Container_dtor recording_engine
          (Container_copy (fst (Container_ctor recording_engine empty_settings recorder_start)))
          (Container_dtor recording_engine
             (fst (Container_ctor recording_engine empty_settings recorder_start))
             (snd (Container_ctor recording_engine empty_settings recorder_start))))
       = [0, 0]"
  by (simp add: Container_copy_def Container_dtor_def Container_ctor_def
      recording_engine_def recorder_start_def)

subsection \<open>Response\<close>




text \<open>
  C6. Whenever both views of an engine response denote readable bytes, the constructor
  yields a \<open>Response\<close> with the engine's code whose error text and return value text
  have the lengths of the views and, byte for byte, the contents found at the views'
  addresses. The texts are values of the \<open>Response\<close>: the record has no address in it,
  so nothing that happens to the engine's storage afterwards reaches them.
\<close>

theorem Response_from_copies_bytes:
  assumes "\<forall>i<ref_size (response_error r). m (ref_data (response_error r) + i) \<noteq> None"
      and "\<forall>i<ref_size (return_value r). m (ref_data (return_value r) + i) \<noteq> None"
  shows "\<exists>R. Response_from m r = Inr R
           \<and> code R = response_code r
           \<and> length (error R) = ref_size (response_error r)
           \<and> (\<forall>i<ref_size (response_error r).
                 m (ref_data (response_error r) + i) = Some (error R ! i))
           \<and> length (returnValue R) = ref_size (return_value r)
           \<and> (\<forall>i<ref_size (return_value r).
                 m (ref_data (return_value r) + i) = Some (returnValue R ! i))"
proof -
  obtain e where e: "NAPA_STRING_REF_TO_STD_STRING m (response_error r) = Inr e"
    using read_view_readable [OF assms(1)] by blast
  obtain v where v: "NAPA_STRING_REF_TO_STD_STRING m (return_value r) = Inr v"
    using read_view_readable [OF assms(2)] by blast
  have "Response_from m r = Inr \<lparr>code = response_code r, error = e, returnValue = v\<rparr>"
    by (simp add: Response_from_def e v)
  with read_view_Inr [OF e] read_view_Inr [OF v] show ?thesis by simp
qed

theorem Response_from_copies_bytes_witness:
  "\<exists>R. Response_from (map_of (storage recorder_start)) success_response = Inr R
       \<and> code R = NAPA_RESPONSE_SUCCESS
       \<and> length (error R) = 0
       \<and> length (returnValue R) = 1
       \<and> map_of (storage recorder_start) 100 = Some (returnValue R ! 0)"
  using Response_from_copies_bytes [of success_response "map_of (storage recorder_start)"]
  by (simp add: success_response_def recorder_start_def)

text \<open>
  C8. A default-constructed \<open>Response\<close> has the code \<open>NAPA_RESPONSE_UNDEFINED\<close>, an
  empty error text and an empty return value text.
\<close>

theorem Response_default_fields:
  "code Response_default = NAPA_RESPONSE_UNDEFINED
   \<and> error Response_default = []
   \<and> returnValue Response_default = []"
  by (simp add: Response_default_def)

subsection \<open>Argument marshaling\<close>

text \<open>
  C7. For every sequence of argument strings, the conversion yields one view for each
  string, in the order of the strings: the view of a string holds the address of that
  string's storage and the number of its characters, and no characters of its own. The
  sequence of views is as long as the sequence of strings, and the loop constructs as
  many views as there are strings, one for each.
\<close>

theorem ConvertToNapaRuntimeArgs_views:
  "ConvertToNapaRuntimeArgs_counted args =
     (map (\<lambda>arg. \<lparr>ref_data = data arg, ref_size = length (chars arg)\<rparr>) args, length args)
   \<and> ConvertToNapaRuntimeArgs args =
       map (\<lambda>arg. \<lparr>ref_data = data arg, ref_size = length (chars arg)\<rparr>) args
   \<and> length (ConvertToNapaRuntimeArgs args) = length args"
  by (simp add: ConvertToNapaRuntimeArgs_def ConvertToNapaRuntimeArgs_counted_def
      emplace_back_each_eq STD_STRING_TO_NAPA_STRING_REF_def [abs_def])

subsection \<open>Synchronous and asynchronous runs\<close>

text \<open>
  C5. For every function name, argument sequence and timeout, \<open>RunSync\<close> calls the
  engine's \<open>napa_container_run_sync\<close> once, with the container's handle, the view of
  the function name, the number of arguments, the pointer to the argument views (which
  are the views of the arguments, in order) and the timeout as it was given, zero or
  not; it returns the conversion of the engine's response, and apart from the engine's
  own state nothing has changed when it returns.
\<close>

theorem RunSync_forwards_to_engine:
  assumes "heap s argv_data = None"
      and "napa_container_run_sync E (handle c) (STD_STRING_TO_NAPA_STRING_REF func)
             (length args) argv_data timeout
             ((heap s)(argv_data \<mapsto> Vector_buffer (map STD_STRING_TO_NAPA_STRING_REF args)))
             (engine s) = (response, e1)"
  shows "RunSync E c func args timeout argv_data s =
           (case Response_from (engine_memory E e1) response of
              Inl f \<Rightarrow> Inl f
            | Inr r \<Rightarrow> Inr (r, s\<lparr>engine := e1\<rparr>))"
  using assms
  by (simp add: RunSync_def new_object_def ConvertToNapaRuntimeArgs_map fresh_upd_delete
      split: sum.splits)

text \<open>
  With the example engine, \<open>add\<close> of \<open>1\<close> and \<open>2\<close> returns Success and \<open>3\<close> when the
  timeout is 0, and Timeout with a message when the timeout is 1.
\<close>

theorem RunSync_forwards_to_engine_witness:
  "map_sum id fst (RunSync recording_engine \<lparr>handle = 0\<rparr> add_name add_args 0 1
      (world_start :: (unit list, recorder) world))
     = Inr \<lparr>code = NAPA_RESPONSE_SUCCESS, error = [], returnValue = ''3''\<rparr>
   \<and> map_sum id fst (RunSync recording_engine \<lparr>handle = 0\<rparr> add_name add_args 1 1
      (world_start :: (unit list, recorder) world))
     = Inr \<lparr>code = NAPA_RESPONSE_TIMEOUT, error = ''timeout'', returnValue = []\<rparr>"
proof -
  let ?w = "world_start :: (unit list, recorder) world"
  let ?h = "(heap ?w)(1 \<mapsto> Vector_buffer (map STD_STRING_TO_NAPA_STRING_REF add_args))"
  have fresh: "heap ?w 1 = None"
    by (simp add: world_start_def)
  have r0: "napa_container_run_sync recording_engine (handle \<lparr>handle = 0\<rparr>)
      (STD_STRING_TO_NAPA_STRING_REF add_name) (length add_args) 1 0 ?h (engine ?w)
      = (success_response, recorder_start)"
    by (simp add: recording_engine_run_sync world_start_def)
  have r1: "napa_container_run_sync recording_engine (handle \<lparr>handle = 0\<rparr>)
      (STD_STRING_TO_NAPA_STRING_REF add_name) (length add_args) 1 1 ?h (engine ?w)
      = (timeout_response, recorder_start)"
    by (simp add: recording_engine_run_sync world_start_def)
  show ?thesis
    using RunSync_forwards_to_engine [OF fresh r0] RunSync_forwards_to_engine [OF fresh r1]
    by (simp add: recording_engine_memory Response_from_success Response_from_timeout)
qed

text \<open>
  C10. Whenever an asynchronous \<open>Run\<close> returns, the addresses of the view array and of
  the context were unused before and differ; the engine was handed the address of the
  view array while the array, holding the views of the arguments, was in the free store;
  on return that address holds nothing any more; the free store differs from the one
  before the call by the completion context alone, which holds the callback and nothing
  else, so neither the view array nor the argument text is kept; the user's state is
  unchanged.
\<close>

theorem Run_argv_is_local:
  assumes "Run E c func args cb timeout argv_data ctx s = Inr s1"
  shows "heap s argv_data = None \<and> heap s ctx = None \<and> argv_data \<noteq> ctx
       \<and> engine s1 = napa_container_run E (handle c) (STD_STRING_TO_NAPA_STRING_REF func)
            (length args) argv_data CompletionHandler_RunCallback ctx timeout
            ((heap s)(argv_data \<mapsto> Vector_buffer (map STD_STRING_TO_NAPA_STRING_REF args),
                      ctx \<mapsto> Run_context \<lparr>callback = cb\<rparr>))
            (engine s)
       \<and> heap s1 argv_data = None
       \<and> heap s1 = (heap s)(ctx \<mapsto> Run_context \<lparr>callback = cb\<rparr>)
       \<and> user s1 = user s"
proof -
  from assms have a: "heap s argv_data = None"
    by (auto simp: Run_def new_object_def Let_def split: if_splits)
  from assms a have b: "heap s ctx = None" "argv_data \<noteq> ctx"
    by (auto simp: Run_def new_object_def Let_def split: if_splits)
  from assms a b have s1: "s1 = s\<lparr>heap := delete_object argv_data
        ((heap s)(argv_data \<mapsto> Vector_buffer (map STD_STRING_TO_NAPA_STRING_REF args),
                  ctx \<mapsto> Run_context \<lparr>callback = cb\<rparr>)),
      engine := napa_container_run E (handle c) (STD_STRING_TO_NAPA_STRING_REF func)
            (length args) argv_data CompletionHandler_RunCallback ctx timeout
            ((heap s)(argv_data \<mapsto> Vector_buffer (map STD_STRING_TO_NAPA_STRING_REF args),
                      ctx \<mapsto> Run_context \<lparr>callback = cb\<rparr>))
            (engine s)\<rparr>"
    by (auto simp: Run_def new_object_def Let_def ConvertToNapaRuntimeArgs_map)
  have h: "delete_object argv_data
        ((heap s)(argv_data \<mapsto> Vector_buffer (map STD_STRING_TO_NAPA_STRING_REF args),
                  ctx \<mapsto> Run_context \<lparr>callback = cb\<rparr>))
      = (heap s)(ctx \<mapsto> Run_context \<lparr>callback = cb\<rparr>)"
    using a b by (auto simp: delete_object_def)
  show ?thesis using a b by (simp add: s1 h)
qed

text \<open>
  With the example engine: the request that the engine wrote down names the argument
  pointer 1, and after the return nothing is at address 1.
\<close>

theorem Run_argv_is_local_witness:
  "requests (engine (projr (Run recording_engine \<lparr>handle = 0\<rparr> add_name add_args
       (log_as ''A'') 0 1 2 world_start)))
     = [(CompletionHandler_RunCallback, 2, 2, 1, 0)]
   \<and> heap (projr (Run recording_engine \<lparr>handle = 0\<rparr> add_name add_args
       (log_as ''A'') 0 1 2 world_start)) 1 = None"
proof -
  let ?run = "Run recording_engine \<lparr>handle = 0\<rparr> add_name add_args
       (log_as ''A'') 0 1 2 world_start"
  have h: "?run = Inr (projr ?run)"
    by (simp add: Run_def new_object_def world_start_def Let_def)
  from Run_argv_is_local [OF h] show ?thesis
    by (simp add: recording_engine_run world_start_def recorder_start_def add_args_def)
qed

end
